theory Spec2Isabelle
  imports Complex_Main
begin

section \<open>Values of the numpy calls\<close>

text \<open>
  Both scripts compute a loudness with \<^verbatim>\<open>np.sqrt(np.mean(pcm_array ** 2))\<close> on a
  float32 array. The model keeps the one non-numeric value that the control flow can
  observe, the NaN that \<^verbatim>\<open>np.mean\<close> gives for an empty array (a RuntimeWarning, no
  exception), and takes every other value as the exact real number: float32 rounding
  and overflow are not represented. Every comparison with NaN is false, as in IEEE 754.
\<close>

datatype npfloat = NaN | Fin real

definition astype_float32 :: "int list \<Rightarrow> real list" where
  "astype_float32 pcm = map real_of_int pcm"

definition np_square :: "real list \<Rightarrow> real list" where
  "np_square a = map (\<lambda>x. x * x) a"

definition np_mean :: "real list \<Rightarrow> npfloat" where
  "np_mean a = (if a = [] then NaN else Fin (sum_list a / real (length a)))"

definition np_sqrt :: "npfloat \<Rightarrow> npfloat" where
  "np_sqrt x = (case x of NaN \<Rightarrow> NaN | Fin r \<Rightarrow> if r < 0 then NaN else Fin (sqrt r))"

definition fgt :: "npfloat \<Rightarrow> real \<Rightarrow> bool" where
  "fgt x t = (case x of NaN \<Rightarrow> False | Fin r \<Rightarrow> r > t)"

definition flt :: "npfloat \<Rightarrow> real \<Rightarrow> bool" where
  "flt x t = (case x of NaN \<Rightarrow> False | Fin r \<Rightarrow> r < t)"

section \<open>custom\_porcupine.py: the audio level detector\<close>

datatype py_error = ZeroDivisionError

record AudioLevelDetector =
  frame_length :: int
  sample_rate :: int
  last_detection_time :: real
  cooldown_period :: real
  threshold :: real
  num_keywords :: int
  keyword_index :: int

text \<open>\<^verbatim>\<open>AudioLevelDetector.__init__(num_keywords)\<close>: no argument is checked.\<close>

definition AudioLevelDetector_init :: "int \<Rightarrow> AudioLevelDetector" where
  "AudioLevelDetector_init n =
     \<lparr> frame_length = 512, sample_rate = 16000, last_detection_time = 0,
       cooldown_period = 2, threshold = 10000, num_keywords = n, keyword_index = 0 \<rparr>"

text \<open>
  \<^verbatim>\<open>AudioLevelDetector.process(pcm)\<close>. The reading of \<^verbatim>\<open>time.time()\<close> is the
  argument \<open>current_time\<close>. The result is the returned integer or the exception
  raised, together with the object as the call leaves it: \<^verbatim>\<open>last_detection_time\<close> is
  assigned before the modulo, so a \<^verbatim>\<open>ZeroDivisionError\<close> leaves it updated.
\<close>

definition process ::
  "real \<Rightarrow> int list \<Rightarrow> AudioLevelDetector \<Rightarrow> (py_error + int) \<times> AudioLevelDetector" where
  "process current_time pcm self =
     (if current_time - last_detection_time self < cooldown_period self then (Inr (- 1), self)
      else if length pcm > 0 then
        (let pcm_array = astype_float32 pcm;
             rms = np_sqrt (np_mean (np_square pcm_array))
         in if fgt rms (threshold self) then
              (let self1 = self\<lparr>last_detection_time := current_time\<rparr>;
                   result = keyword_index self1
               in if num_keywords self1 = 0 then (Inl ZeroDivisionError, self1)
                  else (Inr result,
                        self1\<lparr>keyword_index := (keyword_index self1 + 1) mod num_keywords self1\<rparr>))
            else (Inr (- 1), self))
      else (Inr (- 1), self))"

text \<open>
  The capture loop of the script calls \<open>process\<close> once per frame; an exception ends
  the loop. \<open>process_all\<close> feeds a list of (clock reading, frame) pairs to one
  detector and collects what each call gave.
\<close>

fun process_all ::
  "(real \<times> int list) list \<Rightarrow> AudioLevelDetector \<Rightarrow> (py_error + int) list \<times> AudioLevelDetector" where
  "process_all [] self = ([], self)"
| "process_all ((t, pcm) # rest) self =
     (case process t pcm self of
        (Inl e, self') \<Rightarrow> ([Inl e], self')
      | (Inr k, self') \<Rightarrow>
          (let (ks, self'') = process_all rest self' in (Inr k # ks, self'')))"

text \<open>The slot indices among the results: the returned values that are not \<open>-1\<close>.\<close>

fun detections :: "(py_error + int) list \<Rightarrow> int list" where
  "detections [] = []"
| "detections (Inl e # rs) = detections rs"
| "detections (Inr k # rs) = (if k \<ge> 0 then k # detections rs else detections rs)"

text \<open>
  \<^verbatim>\<open>create(keyword_paths, ...)\<close>. Everything before the fallback is the attempt to
  obtain a real Porcupine instance from the external library (an object of the
  opaque type \<open>pv_porcupine\<close>); its outcome is the argument \<open>porcupine\<close>
  (\<open>None\<close> when every attempt failed). \<^verbatim>\<open>keyword_paths\<close>
  defaults to \<^verbatim>\<open>None\<close>; \<^verbatim>\<open>None\<close> and the empty list are both falsy.
\<close>

typedecl pv_porcupine

definition create ::
  "pv_porcupine option \<Rightarrow> string list option \<Rightarrow> pv_porcupine + AudioLevelDetector" where
  "create porcupine keyword_paths =
     (case porcupine of
        Some p \<Rightarrow> Inl p
      | None \<Rightarrow>
          (let num_keywords =
                 (case keyword_paths of
                    None \<Rightarrow> 1
                  | Some kp \<Rightarrow> if kp \<noteq> [] then int (length kp) else 1)
           in Inr (AudioLevelDetector_init num_keywords)))"

section \<open>normalize\_mic\_volume.py: the volume adjustment loop\<close>

definition TARGET_RMS_LOW :: real where
  "TARGET_RMS_LOW = 8000"

definition TARGET_RMS_HIGH :: real where
  "TARGET_RMS_HIGH = 12000"

definition ADJUST_STEP :: int where
  "ADJUST_STEP = 5"

definition MIN_VOLUME :: int where
  "MIN_VOLUME = 0"

definition MAX_VOLUME :: int where
  "MAX_VOLUME = 100"

definition calculate_rms :: "int list \<Rightarrow> npfloat" where
  "calculate_rms pcm =
     (let pcm_array = astype_float32 pcm;
          rms = np_sqrt (np_mean (np_square pcm_array))
      in rms)"

text \<open>
  What the script does to the outside: it runs \<^verbatim>\<open>amixer sset Capture <volume>%\<close>,
  prints, and sleeps. A cycle of the loop is modelled by the list of these events, in
  order. The outcome of a \<^verbatim>\<open>subprocess.run(..., check=True)\<close> is an input: it raised,
  or it completed with some standard output.
\<close>

datatype event =
    Run_amixer_sset int
  | Print_set int
  | Print_error_setting
  | Print_error_reading
  | Print_could_not_read
  | Print_status npfloat int
  | Sleep

datatype proc_result = Raised | Completed string

text \<open>
  \<^verbatim>\<open>re.findall(r"\[(\d+)%\]", output)\<close>: the digit groups of the non-overlapping matches,
  from left to right. \<open>match_percent\<close> matches the pattern at the head of a string;
  since \<^verbatim>\<open>%\<close> is not a digit, only the longest run of digits can be followed by it.
  Characters are bytes here, so \<^verbatim>\<open>\d\<close> is an ASCII digit.
\<close>

definition isdigit :: "char \<Rightarrow> bool" where
  "isdigit c = (c \<in> set ''0123456789'')"

definition match_percent :: "string \<Rightarrow> string option" where
  "match_percent s =
     (case s of
        [] \<Rightarrow> None
      | c # cs \<Rightarrow>
          if c = CHR ''[''
          then (let ds = takeWhile isdigit cs; rest = dropWhile isdigit cs
                in if ds \<noteq> [] \<and> take 2 rest = ''%]'' then Some ds else None)
          else None)"

fun re_findall_percent :: "string \<Rightarrow> string list" where
  "re_findall_percent [] = []"
| "re_findall_percent (c # cs) =
     (case match_percent (c # cs) of
        Some ds \<Rightarrow> ds # re_findall_percent (drop (length ds + 2) cs)
      | None \<Rightarrow> re_findall_percent cs)"

text \<open>\<^verbatim>\<open>int(s)\<close> on a string of decimal digits.\<close>

definition py_int :: "string \<Rightarrow> int" where
  "py_int ds = foldl (\<lambda>a c. 10 * a + (int (of_char c) - 48)) 0 ds"

text \<open>
  \<^verbatim>\<open>get_current_mic_volume()\<close>: the argument is the outcome of
  \<^verbatim>\<open>amixer get Capture\<close>; the result is what was printed and the value returned
  (\<open>None\<close> for Python's \<^verbatim>\<open>None\<close>).
\<close>

definition get_current_mic_volume :: "proc_result \<Rightarrow> event list \<times> int option" where
  "get_current_mic_volume result =
     (case result of
        Raised \<Rightarrow> ([Print_error_reading], None)
      | Completed output \<Rightarrow>
          (case re_findall_percent output of
             m # _ \<Rightarrow> ([], Some (py_int m))
           | [] \<Rightarrow> ([], None)))"

text \<open>
  \<^verbatim>\<open>set_mic_volume(volume)\<close>: \<open>sset_ok\<close> tells whether the \<^verbatim>\<open>amixer sset\<close> run
  completed; the run is attempted in both cases, with the clamped volume.
\<close>

definition set_mic_volume :: "bool \<Rightarrow> int \<Rightarrow> event list" where
  "set_mic_volume sset_ok volume =
     (let volume = max MIN_VOLUME (min volume MAX_VOLUME)
      in if sset_ok then [Run_amixer_sset volume, Print_set volume]
         else [Run_amixer_sset volume, Print_error_setting])"

text \<open>
  One pass through the body of the \<^verbatim>\<open>while True\<close> loop of \<^verbatim>\<open>main()\<close>. Its inputs
  are the frame that the audio stream gave (after \<^verbatim>\<open>struct.unpack\<close>, so
  \<^verbatim>\<open>FRAME_LENGTH\<close> samples in the script; the model takes any frame) and the outcomes
  of the two \<^verbatim>\<open>amixer\<close> runs.
\<close>

record cycle =
  frame :: "int list"
  amixer_get :: proc_result
  amixer_sset_ok :: bool

definition main_cycle :: "cycle \<Rightarrow> event list" where
  "main_cycle c =
     (let pcm = frame c;
          rms = calculate_rms pcm;
          (printed, current_vol) = get_current_mic_volume (amixer_get c)
      in case current_vol of
           None \<Rightarrow> printed @ [Print_could_not_read, Sleep]
         | Some cv \<Rightarrow>
             printed @ [Print_status rms cv] @
             (if flt rms TARGET_RMS_LOW then
                (let new_vol = cv + ADJUST_STEP in set_mic_volume (amixer_sset_ok c) new_vol)
              else if fgt rms TARGET_RMS_HIGH then
                (let new_vol = cv - ADJUST_STEP in set_mic_volume (amixer_sset_ok c) new_vol)
              else []) @
             [Sleep])"

text \<open>The loop, over the cycles that run before the script is interrupted.\<close>

fun main_loop :: "cycle list \<Rightarrow> event list" where
  "main_loop [] = []"
| "main_loop (c # cs) = main_cycle c @ main_loop cs"

text \<open>The volumes of the \<^verbatim>\<open>amixer sset\<close> commands among some events.\<close>

fun volume_commands :: "event list \<Rightarrow> int list" where
  "volume_commands [] = []"
| "volume_commands (Run_amixer_sset v # es) = v # volume_commands es"
| "volume_commands (e # es) = volume_commands es"

section \<open>Theorems\<close>

lemma fgt_Fin [simp]: "fgt (Fin r) t = (t < r)"
  by (simp add: fgt_def)

lemma fgt_NaN [simp]: "fgt NaN t = False"
  by (simp add: fgt_def)

lemma flt_Fin [simp]: "flt (Fin r) t = (r < t)"
  by (simp add: flt_def)

lemma flt_NaN [simp]: "flt NaN t = False"
  by (simp add: flt_def)

text \<open>
  C1. While \<open>current_time - last_detection_time < cooldown_period\<close>, \<open>process\<close>
  returns \<open>-1\<close> (no trigger) and leaves the detector as it was, whatever the frame
  is: the cooldown test is the first one and the loudness is never looked at.
\<close>

theorem process_cooldown_no_trigger:
  assumes "current_time - last_detection_time self < cooldown_period self"
  shows "process current_time pcm self = (Inr (- 1), self)"
  using assms by (simp add: process_def)

theorem process_cooldown_no_trigger_witness:
  "(1/2 :: real) - last_detection_time (AudioLevelDetector_init 2)
      < cooldown_period (AudioLevelDetector_init 2)
   \<and> process (1/2) [32767, 32767, -32768] (AudioLevelDetector_init 2)
      = (Inr (- 1), AudioLevelDetector_init 2)"
proof -
  have h: "(1/2 :: real) - last_detection_time (AudioLevelDetector_init 2)
      < cooldown_period (AudioLevelDetector_init 2)"
    by (simp add: AudioLevelDetector_init_def)
  from process_cooldown_no_trigger [OF h, of "[32767, 32767, -32768]"] h
  show ?thesis by simp
qed

subsection \<open>Evaluating the loudness of a frame\<close>

lemma less_sqrt_iff: "0 \<le> t \<Longrightarrow> (t < sqrt r) = (t * t < r)"
proof -
  assume t: "0 \<le> t"
  have "t < sqrt r \<longleftrightarrow> sqrt (t * t) < sqrt r" using t by simp
  also have "\<dots> \<longleftrightarrow> t * t < r" by (rule real_sqrt_less_iff)
  finally show ?thesis .
qed

lemma sqrt_less_iff: "0 \<le> t \<Longrightarrow> (sqrt r < t) = (r < t * t)"
proof -
  assume t: "0 \<le> t"
  have "sqrt r < t \<longleftrightarrow> sqrt r < sqrt (t * t)" using t by simp
  also have "\<dots> \<longleftrightarrow> r < t * t" by (rule real_sqrt_less_iff)
  finally show ?thesis .
qed

lemma rms_nonempty:
  "pcm \<noteq> [] \<Longrightarrow> np_sqrt (np_mean (np_square (astype_float32 pcm)))
     = Fin (sqrt (sum_list (map (\<lambda>x. real_of_int x * real_of_int x) pcm) / real (length pcm)))"
proof -
  assume ne: "pcm \<noteq> []"
  have "0 \<le> sum_list (map (\<lambda>x. real_of_int x * real_of_int x) pcm)"
    by (rule sum_list_nonneg) auto
  then have "\<not> sum_list (map (\<lambda>x. real_of_int x * real_of_int x) pcm) / real (length pcm) < 0"
    by (simp add: not_less)
  with ne show ?thesis
    by (simp add: np_sqrt_def np_mean_def np_square_def astype_float32_def o_def)
qed

lemma rms_empty: "np_sqrt (np_mean (np_square (astype_float32 []))) = NaN"
  by (simp add: np_sqrt_def np_mean_def np_square_def astype_float32_def)

subsection \<open>One call of \<open>process\<close>\<close>

lemma process_step:
  assumes "1 \<le> num_keywords self"
    and "0 \<le> keyword_index self" and "keyword_index self < num_keywords self"
    and "process t pcm self = (r, self')"
  shows "(r = Inr (- 1) \<and> self' = self) \<or>
         (r = Inr (keyword_index self) \<and> num_keywords self' = num_keywords self
           \<and> keyword_index self' = (keyword_index self + 1) mod num_keywords self)"
  using assms by (auto simp: process_def Let_def split: if_splits)

text \<open>
  C2. For a detector with \<open>num_keywords \<ge> 1\<close> whose \<open>keyword_index\<close> is in
  \<open>[0, num_keywords)\<close> (as after construction, where it is 0), any sequence of calls
  to \<open>process\<close>, with any clock readings and any frames, raises nothing, leaves
  \<open>keyword_index\<close> in \<open>[0, num_keywords)\<close>, and the slot indices it returns are
  \<open>keyword_index, keyword_index + 1, \<dots>\<close> modulo \<open>num_keywords\<close> in order: from a
  new detector \<open>0, 1, \<dots>, num_keywords - 1, 0, \<dots>\<close>, whatever the loudness of the
  triggering frames.
\<close>

theorem slot_cycle:
  assumes "1 \<le> num_keywords self"
    and "0 \<le> keyword_index self" and "keyword_index self < num_keywords self"
    and "process_all inputs self = (outs, self')"
  shows "0 \<le> keyword_index self' \<and> keyword_index self' < num_keywords self'
       \<and> num_keywords self' = num_keywords self
       \<and> length outs = length inputs \<and> Inl ZeroDivisionError \<notin> set outs
       \<and> detections outs =
           map (\<lambda>j. (keyword_index self + int j) mod num_keywords self)
             [0 ..< length (detections outs)]"
  using assms
proof (induction inputs arbitrary: self outs)
  case Nil
  then show ?case by simp
next
  case (Cons a inputs)
  obtain t pcm where a: "a = (t, pcm)" by (cases a)
  obtain r s1 where p: "process t pcm self = (r, s1)" by (cases "process t pcm self")
  let ?n = "num_keywords self"
  from process_step [OF Cons.prems(1-3) p]
  consider (quiet) "r = Inr (- 1)" "s1 = self"
    | (fire) "r = Inr (keyword_index self)" "num_keywords s1 = ?n"
        "keyword_index s1 = (keyword_index self + 1) mod ?n"
    by blast
  then show ?case
  proof cases
    case quiet
    obtain ks where ks: "process_all inputs self = (ks, self')" and outs: "outs = Inr (- 1) # ks"
      using Cons.prems(4) a p quiet by (auto split: prod.splits)
    from Cons.IH [OF Cons.prems(1-3) ks] outs show ?thesis by simp
  next
    case fire
    obtain ks where ks: "process_all inputs s1 = (ks, self')"
      and outs: "outs = Inr (keyword_index self) # ks"
      using Cons.prems(4) a p fire by (auto split: prod.splits)
    have n1: "1 \<le> num_keywords s1" using fire Cons.prems(1) by simp
    have lo: "0 \<le> keyword_index s1" using fire Cons.prems(1) by simp
    have hi: "keyword_index s1 < num_keywords s1" using fire Cons.prems(1) by simp
    note ih = Cons.IH [OF n1 lo hi ks]
    let ?m = "length (detections ks)"
    have shift: "((keyword_index self + 1) mod ?n + int j) mod ?n
        = (keyword_index self + int (Suc j)) mod ?n" for j
      by (simp add: mod_simps algebra_simps)
    have "detections outs = keyword_index self # detections ks"
      using outs Cons.prems(2) by simp
    also have "detections ks = map (\<lambda>j. (keyword_index self + int (Suc j)) mod ?n) [0 ..< ?m]"
      using ih fire shift by simp
    also have "keyword_index self # \<dots>
        = map (\<lambda>j. (keyword_index self + int j) mod ?n) [0 ..< Suc ?m]"
      using Cons.prems(2,3) by (simp add: upt_conv_Cons map_Suc_upt [symmetric] del: upt_Suc)
    finally have "detections outs
        = map (\<lambda>j. (keyword_index self + int j) mod ?n) [0 ..< length (detections outs)]"
      using outs Cons.prems(2) by simp
    with ih outs fire show ?thesis by simp
  qed
qed

theorem slot_cycle_witness:
  "process_all [(10, [20000]), (21/2, [20000]), (121/10, [20000, - 20000]), (13, [1]),
                (15, [- 30000]), (17, []), (18, [12000, 9000])] (AudioLevelDetector_init 2)
     = ([Inr 0, Inr (- 1), Inr 1, Inr (- 1), Inr 0, Inr (- 1), Inr 1],
        (AudioLevelDetector_init 2)\<lparr>last_detection_time := 18, keyword_index := 0\<rparr>)
   \<and> detections [Inr 0, Inr (- 1), Inr 1, Inr (- 1), Inr 0, Inr (- 1), Inr 1] = [0, 1, 0, 1]
   \<and> detections [Inr 0, Inr (- 1), Inr 1, Inr (- 1), Inr 0, Inr (- 1), Inr 1]
     = map (\<lambda>j. (keyword_index (AudioLevelDetector_init 2) + int j)
                    mod num_keywords (AudioLevelDetector_init 2))
         [0 ..< length (detections [Inr 0, Inr (- 1), Inr 1, Inr (- 1), Inr 0, Inr (- 1), Inr 1])]"
proof -
  let ?s = "AudioLevelDetector_init 2"
  have run: "process_all [(10, [20000]), (21/2, [20000]), (121/10, [20000, - 20000]), (13, [1]),
                (15, [- 30000]), (17, []), (18, [12000, 9000])] ?s
     = ([Inr 0, Inr (- 1), Inr 1, Inr (- 1), Inr 0, Inr (- 1), Inr 1],
        ?s\<lparr>last_detection_time := 18, keyword_index := 0\<rparr>)"
    by (simp add: process_def AudioLevelDetector_init_def rms_nonempty less_sqrt_iff Let_def)
  have d: "detections [Inr 0, Inr (- 1), Inr 1, Inr (- 1), Inr 0, Inr (- 1), Inr 1] = [0, 1, 0, 1]"
    by simp
  have h1: "1 \<le> num_keywords ?s" by (simp add: AudioLevelDetector_init_def)
  have h2: "0 \<le> keyword_index ?s" by (simp add: AudioLevelDetector_init_def)
  have h3: "keyword_index ?s < num_keywords ?s" by (simp add: AudioLevelDetector_init_def)
  from slot_cycle [OF h1 h2 h3 run] run d show ?thesis
    by blast
qed

text \<open>
  C3. A frame whose computed loudness is equal to the threshold, or below it, gives
  \<open>-1\<close> and leaves the detector unchanged at any time; a call that gives anything
  else (a slot index, a changed detector) had a computed loudness strictly greater than
  the threshold.
\<close>

theorem process_threshold_strict:
  "(np_sqrt (np_mean (np_square (astype_float32 pcm))) = Fin r \<and> r \<le> threshold self
      \<longrightarrow> process current_time pcm self = (Inr (- 1), self))
   \<and> (process current_time pcm self \<noteq> (Inr (- 1), self)
      \<longrightarrow> (\<exists>r'. np_sqrt (np_mean (np_square (astype_float32 pcm))) = Fin r'
                 \<and> threshold self < r'))"
  by (cases "np_sqrt (np_mean (np_square (astype_float32 pcm)))")
     (auto simp: process_def Let_def)

theorem process_threshold_strict_witness:
  "np_sqrt (np_mean (np_square (astype_float32 [10000, - 10000]))) = Fin 10000
   \<and> (10000 :: real) \<le> threshold (AudioLevelDetector_init 2)
   \<and> process 10 [10000, - 10000] (AudioLevelDetector_init 2)
       = (Inr (- 1), AudioLevelDetector_init 2)
   \<and> process 10 [10001, - 10001] (AudioLevelDetector_init 2)
       \<noteq> (Inr (- 1), AudioLevelDetector_init 2)
   \<and> (\<exists>r'. np_sqrt (np_mean (np_square (astype_float32 [10001, - 10001]))) = Fin r'
          \<and> threshold (AudioLevelDetector_init 2) < r')"
proof -
  have "sqrt 100000000 = 10000" using real_sqrt_abs2 [of 10000] by simp
  then have rms: "np_sqrt (np_mean (np_square (astype_float32 [10000, - 10000]))) = Fin 10000"
    by (simp add: rms_nonempty)
  have thr: "(10000 :: real) \<le> threshold (AudioLevelDetector_init 2)"
    by (simp add: AudioLevelDetector_init_def)
  have fire: "process 10 [10001, - 10001] (AudioLevelDetector_init 2)
       \<noteq> (Inr (- 1), AudioLevelDetector_init 2)"
    by (simp add: process_def AudioLevelDetector_init_def rms_nonempty less_sqrt_iff Let_def)
  from process_threshold_strict [of "[10000, - 10000]" 10000 "AudioLevelDetector_init 2" 10]
       process_threshold_strict [of "[10001, - 10001]" 0 "AudioLevelDetector_init 2" 10]
       rms thr fire
  show ?thesis by blast
qed

text \<open>
  C10. When the cooldown is active, or the frame is empty, or the loudness does not
  exceed the threshold, \<open>process\<close> returns \<open>-1\<close> and the detector is exactly as
  before; a call that changes the detector is one where none of the three holds (the
  trigger branch); and, with a non-negative \<open>keyword_index\<close>, every call that
  returns \<open>-1\<close> leaves the detector unchanged.
\<close>

theorem process_no_trigger_unchanged:
  "(current_time - last_detection_time self < cooldown_period self \<or> pcm = []
      \<or> \<not> fgt (np_sqrt (np_mean (np_square (astype_float32 pcm)))) (threshold self)
     \<longrightarrow> process current_time pcm self = (Inr (- 1), self))
   \<and> (snd (process current_time pcm self) \<noteq> self
     \<longrightarrow> \<not> current_time - last_detection_time self < cooldown_period self \<and> pcm \<noteq> []
        \<and> fgt (np_sqrt (np_mean (np_square (astype_float32 pcm)))) (threshold self))
   \<and> (0 \<le> keyword_index self \<and> fst (process current_time pcm self) = Inr (- 1)
     \<longrightarrow> snd (process current_time pcm self) = self)"
  by (auto simp: process_def Let_def)

theorem process_no_trigger_unchanged_witness:
  "1/2 - last_detection_time (AudioLevelDetector_init 2)
      < cooldown_period (AudioLevelDetector_init 2)
   \<and> process (1/2) [20000] (AudioLevelDetector_init 2) = (Inr (- 1), AudioLevelDetector_init 2)
   \<and> process 10 [] (AudioLevelDetector_init 2) = (Inr (- 1), AudioLevelDetector_init 2)
   \<and> snd (process 10 [20000] (AudioLevelDetector_init 2)) \<noteq> AudioLevelDetector_init 2
   \<and> fgt (np_sqrt (np_mean (np_square (astype_float32 [20000]))))
        (threshold (AudioLevelDetector_init 2))
   \<and> 0 \<le> keyword_index (AudioLevelDetector_init 2)
   \<and> fst (process 13 [1] (AudioLevelDetector_init 2)) = Inr (- 1)
   \<and> snd (process 13 [1] (AudioLevelDetector_init 2)) = AudioLevelDetector_init 2"
proof -
  let ?s = "AudioLevelDetector_init 2"
  have h1: "1/2 - last_detection_time ?s < cooldown_period ?s"
    by (simp add: AudioLevelDetector_init_def)
  have h2: "snd (process 10 [20000] ?s) \<noteq> ?s"
    by (simp add: process_def AudioLevelDetector_init_def rms_nonempty less_sqrt_iff Let_def)
  have h3: "0 \<le> keyword_index ?s"
    by (simp add: AudioLevelDetector_init_def)
  have h4: "fst (process 13 [1] ?s) = Inr (- 1)"
    by (simp add: process_def AudioLevelDetector_init_def rms_nonempty Let_def)
  from process_no_trigger_unchanged [where current_time = "1/2" and self = ?s and pcm = "[20000]"]
       process_no_trigger_unchanged [where current_time = 10 and self = ?s and pcm = "[]"]
       process_no_trigger_unchanged [where current_time = 10 and self = ?s and pcm = "[20000]"]
       process_no_trigger_unchanged [where current_time = 13 and self = ?s and pcm = "[1]"]
       h1 h2 h3 h4
  show ?thesis by blast
qed

text \<open>
  C6, as the claim states it, fails: the constructor accepts \<open>num_keywords = 0\<close>, the
  detector it builds raises \<^verbatim>\<open>ZeroDivisionError\<close> only later, in \<open>process\<close> on the
  first loud frame, and \<open>create\<close> turns an empty list of keyword paths into a
  detector with one slot.
\<close>

theorem init_zero_keywords_accepted:
  "num_keywords (AudioLevelDetector_init 0) = 0
   \<and> process 10 [20000] (AudioLevelDetector_init 0)
       = (Inl ZeroDivisionError, (AudioLevelDetector_init 0)\<lparr>last_detection_time := 10\<rparr>)
   \<and> create None (Some []) = Inr (AudioLevelDetector_init 1)"
  by (simp add: process_def AudioLevelDetector_init_def rms_nonempty less_sqrt_iff Let_def
      create_def)

text \<open>
  C6, amended. The constructor checks nothing and stores any \<open>num_keywords\<close> as it
  is given. A detector with \<open>num_keywords = 0\<close> is usable until it first triggers:
  every call of \<open>process\<close> in the cooldown, on an empty frame or on a frame whose
  loudness does not exceed the threshold returns \<open>-1\<close> and leaves it unchanged, and
  every call that triggers raises \<^verbatim>\<open>ZeroDivisionError\<close>, with \<open>last_detection_time\<close>
  already set to the time of the call. The fallback of \<open>create\<close> never builds a
  detector with fewer than one slot: without keyword paths, or with an empty list of
  them, \<open>num_keywords\<close> is 1, otherwise it is the number of paths.
\<close>

theorem create_fallback_num_keywords:
  "num_keywords (AudioLevelDetector_init n) = n
   \<and> (num_keywords self = 0 \<longrightarrow>
        process current_time pcm self =
          (if \<not> current_time - last_detection_time self < cooldown_period self \<and> pcm \<noteq> []
               \<and> fgt (np_sqrt (np_mean (np_square (astype_float32 pcm)))) (threshold self)
           then (Inl ZeroDivisionError, self\<lparr>last_detection_time := current_time\<rparr>)
           else (Inr (- 1), self)))
   \<and> (create None keyword_paths = Inr d \<longrightarrow>
        1 \<le> num_keywords d \<and> d = AudioLevelDetector_init (num_keywords d)
        \<and> num_keywords d =
            (case keyword_paths of None \<Rightarrow> 1
             | Some kp \<Rightarrow> if kp = [] then 1 else int (length kp)))"
proof -
  have init: "num_keywords (AudioLevelDetector_init n) = n"
    by (simp add: AudioLevelDetector_init_def)
  have zero: "num_keywords self = 0 \<longrightarrow>
        process current_time pcm self =
          (if \<not> current_time - last_detection_time self < cooldown_period self \<and> pcm \<noteq> []
               \<and> fgt (np_sqrt (np_mean (np_square (astype_float32 pcm)))) (threshold self)
           then (Inl ZeroDivisionError, self\<lparr>last_detection_time := current_time\<rparr>)
           else (Inr (- 1), self))"
    by (simp add: process_def Let_def)
  have fallback: "create None keyword_paths = Inr d \<longrightarrow>
        1 \<le> num_keywords d \<and> d = AudioLevelDetector_init (num_keywords d)
        \<and> num_keywords d =
            (case keyword_paths of None \<Rightarrow> 1
             | Some kp \<Rightarrow> if kp = [] then 1 else int (length kp))"
    by (cases keyword_paths) (auto simp: create_def AudioLevelDetector_init_def Suc_le_eq)
  from init zero fallback show ?thesis by blast
qed

theorem create_fallback_num_keywords_witness:
  "num_keywords (AudioLevelDetector_init 0) = 0
   \<and> process 1 [32767] (AudioLevelDetector_init 0) = (Inr (- 1), AudioLevelDetector_init 0)
   \<and> process 5 [] (AudioLevelDetector_init 0) = (Inr (- 1), AudioLevelDetector_init 0)
   \<and> process 5 [100, - 100] (AudioLevelDetector_init 0) = (Inr (- 1), AudioLevelDetector_init 0)
   \<and> process 5 [32767] (AudioLevelDetector_init 0)
       = (Inl ZeroDivisionError, (AudioLevelDetector_init 0)\<lparr>last_detection_time := 5\<rparr>)
   \<and> create None (Some [''computer_en_linux_v3_0_0.ppn'', ''stop-there_en_linux_v3_0_0.ppn''])
       = Inr (AudioLevelDetector_init 2)
   \<and> 1 \<le> num_keywords (AudioLevelDetector_init 2)
   \<and> num_keywords (AudioLevelDetector_init 2) = 2"
proof -
  let ?z = "AudioLevelDetector_init 0"
  let ?kp = "Some [''computer_en_linux_v3_0_0.ppn'', ''stop-there_en_linux_v3_0_0.ppn'']"
  have z: "num_keywords ?z = 0"
    by (simp add: AudioLevelDetector_init_def)
  have cool: "(1 :: real) - last_detection_time ?z < cooldown_period ?z"
    by (simp add: AudioLevelDetector_init_def)
  have elapsed: "\<not> (5 :: real) - last_detection_time ?z < cooldown_period ?z"
    by (simp add: AudioLevelDetector_init_def)
  have quiet: "\<not> fgt (np_sqrt (np_mean (np_square (astype_float32 [100, - 100])))) (threshold ?z)"
    by (simp add: AudioLevelDetector_init_def rms_nonempty less_sqrt_iff)
  have loud: "fgt (np_sqrt (np_mean (np_square (astype_float32 [32767])))) (threshold ?z)"
    by (simp add: AudioLevelDetector_init_def rms_nonempty less_sqrt_iff)
  have c: "create None ?kp = Inr (AudioLevelDetector_init 2)"
    by (simp add: create_def)
  from create_fallback_num_keywords [where n = 0 and self = ?z and current_time = 1 and pcm = "[32767]"] z cool
  have p1: "process 1 [32767] ?z = (Inr (- 1), ?z)" by simp
  from create_fallback_num_keywords [where n = 0 and self = ?z and current_time = 5 and pcm = "[]"] z
  have p2: "process 5 [] ?z = (Inr (- 1), ?z)" by simp
  from create_fallback_num_keywords [where n = 0 and self = ?z and current_time = 5 and pcm = "[100, - 100]"] z quiet
  have p3: "process 5 [100, - 100] ?z = (Inr (- 1), ?z)" by simp
  from create_fallback_num_keywords [where n = 0 and self = ?z and current_time = 5 and pcm = "[32767]"] z elapsed loud
  have p4: "process 5 [32767] ?z = (Inl ZeroDivisionError, ?z\<lparr>last_detection_time := 5\<rparr>)"
    by simp
  from create_fallback_num_keywords [where n = 2 and d = "AudioLevelDetector_init 2" and keyword_paths = ?kp] c
  have p5: "1 \<le> num_keywords (AudioLevelDetector_init 2) \<and> num_keywords (AudioLevelDetector_init 2) = 2"
    by simp
  from z p1 p2 p3 p4 c p5 show ?thesis by blast
qed

subsection \<open>The volume adjustment loop\<close>

lemma volume_commands_append [simp]:
  "volume_commands (xs @ ys) = volume_commands xs @ volume_commands ys"
  by (induction xs rule: volume_commands.induct) simp_all

lemma volume_commands_set_mic_volume [simp]:
  "volume_commands (set_mic_volume ok volume) = [max MIN_VOLUME (min volume MAX_VOLUME)]"
  by (simp add: set_mic_volume_def Let_def)

lemma volume_commands_printed [simp]:
  "volume_commands (fst (get_current_mic_volume res)) = []"
  by (simp add: get_current_mic_volume_def split: proc_result.splits list.splits)

lemma get_current_mic_volume_None_iff:
  "snd (get_current_mic_volume res) = None \<longleftrightarrow>
     res = Raised \<or> (\<exists>output. res = Completed output \<and> re_findall_percent output = [])"
  by (simp add: get_current_mic_volume_def split: proc_result.splits list.splits)

lemma main_cycle_unfold:
  "main_cycle c =
     (case snd (get_current_mic_volume (amixer_get c)) of
        None \<Rightarrow> fst (get_current_mic_volume (amixer_get c)) @ [Print_could_not_read, Sleep]
      | Some cv \<Rightarrow>
          fst (get_current_mic_volume (amixer_get c)) @ [Print_status (calculate_rms (frame c)) cv] @
          (if flt (calculate_rms (frame c)) TARGET_RMS_LOW
           then set_mic_volume (amixer_sset_ok c) (cv + ADJUST_STEP)
           else if fgt (calculate_rms (frame c)) TARGET_RMS_HIGH
           then set_mic_volume (amixer_sset_ok c) (cv - ADJUST_STEP)
           else []) @ [Sleep])"
  by (simp add: main_cycle_def Let_def split: prod.splits option.splits)

lemma rms_replicate:
  "0 < n \<Longrightarrow> 0 \<le> a \<Longrightarrow> calculate_rms (replicate n a) = Fin (real_of_int a)"
proof -
  assume n: "0 < n" and a: "0 \<le> a"
  have "sum_list (map (\<lambda>x. real_of_int x * real_of_int x) (replicate n a)) / real n
      = real_of_int a * real_of_int a"
    using n by (simp add: sum_list_replicate)
  moreover have "replicate n a \<noteq> []" using n by simp
  ultimately show ?thesis
    using a by (simp add: calculate_rms_def rms_nonempty del: map_replicate)
qed

lemmas eval_cycle = main_cycle_unfold rms_replicate get_current_mic_volume_def
  match_percent_def isdigit_def py_int_def set_mic_volume_def TARGET_RMS_LOW_def
  TARGET_RMS_HIGH_def ADJUST_STEP_def MIN_VOLUME_def MAX_VOLUME_def

text \<open>
  C4. On the empty frame \<open>calculate_rms\<close> has no guard: the mean of the empty array
  is NaN, and NaN is what it returns, not 0. Nothing is raised; both comparisons of the
  loop with NaN are false. \<open>process\<close> has the guard \<^verbatim>\<open>len(pcm) > 0\<close> and returns
  \<open>-1\<close> without computing a loudness.
\<close>

theorem calculate_rms_empty_frame:
  "calculate_rms [] = NaN \<and> calculate_rms [] \<noteq> Fin 0
   \<and> \<not> flt (calculate_rms []) TARGET_RMS_LOW \<and> \<not> fgt (calculate_rms []) TARGET_RMS_HIGH
   \<and> process 10 [] (AudioLevelDetector_init 2) = (Inr (- 1), AudioLevelDetector_init 2)"
  by (simp add: calculate_rms_def rms_empty process_def AudioLevelDetector_init_def)

text \<open>
  C5, as the claim states it, fails: with the volume read as 100 and a loudness of 5000,
  below the band, the clamped proposal is 100 again and the cycle still runs
  \<^verbatim>\<open>amixer sset Capture 100%\<close>.
\<close>

theorem redundant_sset_at_max_volume:
  "main_cycle \<lparr>frame = replicate 512 5000,
               amixer_get = Completed ''  Mono: Capture 63 [100%] [30.00dB] [on]'',
               amixer_sset_ok = True\<rparr>
     = [Print_status (Fin 5000) 100, Run_amixer_sset 100, Print_set 100, Sleep]"
  by (simp add: eval_cycle)

text \<open>
  C5, amended. In every cycle where the volume was read and the loudness is below
  \<open>TARGET_RMS_LOW\<close> or above \<open>TARGET_RMS_HIGH\<close>, exactly one \<^verbatim>\<open>amixer sset\<close> command is
  run, with the proposed volume clamped to \<open>[MIN_VOLUME, MAX_VOLUME]\<close>, whether or not
  that differs from the volume read.
\<close>

theorem out_of_band_always_sets:
  assumes "snd (get_current_mic_volume (amixer_get c)) = Some cv"
    and "flt (calculate_rms (frame c)) TARGET_RMS_LOW
         \<or> fgt (calculate_rms (frame c)) TARGET_RMS_HIGH"
  shows "volume_commands (main_cycle c) =
           [max MIN_VOLUME
              (min (if flt (calculate_rms (frame c)) TARGET_RMS_LOW
                    then cv + ADJUST_STEP else cv - ADJUST_STEP) MAX_VOLUME)]"
  using assms by (auto simp: main_cycle_unfold)

theorem out_of_band_always_sets_witness:
  "snd (get_current_mic_volume (Completed ''  Mono: Capture 0 [0%] [-34.00dB] [on]'')) = Some 0
   \<and> fgt (calculate_rms (replicate 512 20000)) TARGET_RMS_HIGH
   \<and> volume_commands (main_cycle \<lparr>frame = replicate 512 20000,
         amixer_get = Completed ''  Mono: Capture 0 [0%] [-34.00dB] [on]'',
         amixer_sset_ok = False\<rparr>) = [0]"
proof -
  let ?c = "\<lparr>frame = replicate 512 20000,
         amixer_get = Completed ''  Mono: Capture 0 [0%] [-34.00dB] [on]'',
         amixer_sset_ok = False\<rparr>"
  have h1: "snd (get_current_mic_volume (amixer_get ?c)) = Some 0"
    by (simp add: get_current_mic_volume_def match_percent_def isdigit_def py_int_def)
  have h2: "fgt (calculate_rms (replicate 512 20000)) TARGET_RMS_HIGH"
    by (simp add: rms_replicate TARGET_RMS_HIGH_def)
  have h3: "\<not> flt (calculate_rms (replicate 512 20000)) TARGET_RMS_LOW"
    by (simp add: rms_replicate TARGET_RMS_LOW_def)
  have h2': "flt (calculate_rms (frame ?c)) TARGET_RMS_LOW
         \<or> fgt (calculate_rms (frame ?c)) TARGET_RMS_HIGH"
    using h2 by simp
  from out_of_band_always_sets [OF h1 h2'] h1 h2 h3 show ?thesis
    by (simp add: MIN_VOLUME_def MAX_VOLUME_def ADJUST_STEP_def)
qed

text \<open>
  C7. \<open>set_mic_volume\<close> clamps the volume it is given to \<open>[MIN_VOLUME, MAX_VOLUME]\<close>
  before running the command, so every volume written by the loop, over any number of
  cycles, any loudness and any volume read, lies within these bounds.
\<close>

theorem written_volume_in_bounds:
  "volume_commands (set_mic_volume ok volume) = [max MIN_VOLUME (min volume MAX_VOLUME)]
   \<and> (\<forall>v \<in> set (volume_commands (main_loop cs)). MIN_VOLUME \<le> v \<and> v \<le> MAX_VOLUME)"
proof -
  have cyc: "\<forall>v \<in> set (volume_commands (main_cycle c)). MIN_VOLUME \<le> v \<and> v \<le> MAX_VOLUME" for c
    by (auto simp: main_cycle_unfold MIN_VOLUME_def MAX_VOLUME_def split: option.splits)
  have "\<forall>v \<in> set (volume_commands (main_loop cs)). MIN_VOLUME \<le> v \<and> v \<le> MAX_VOLUME"
    using cyc by (induction cs) auto
  then show ?thesis by simp
qed

theorem written_volume_in_bounds_witness:
  "volume_commands (main_loop
      [\<lparr>frame = replicate 512 5000, amixer_get = Completed ''[98%]'', amixer_sset_ok = True\<rparr>,
       \<lparr>frame = replicate 512 20000, amixer_get = Completed ''[3%]'', amixer_sset_ok = True\<rparr>,
       \<lparr>frame = replicate 512 5000, amixer_get = Completed ''[250%]'', amixer_sset_ok = True\<rparr>])
     = [100, 0, 100]
   \<and> MIN_VOLUME \<le> 100 \<and> 100 \<le> MAX_VOLUME"
proof -
  let ?cs = "[\<lparr>frame = replicate 512 5000, amixer_get = Completed ''[98%]'', amixer_sset_ok = True\<rparr>,
       \<lparr>frame = replicate 512 20000, amixer_get = Completed ''[3%]'', amixer_sset_ok = True\<rparr>,
       \<lparr>frame = replicate 512 5000, amixer_get = Completed ''[250%]'', amixer_sset_ok = True\<rparr>]"
  have run: "volume_commands (main_loop ?cs) = [100, 0, 100]"
    by (simp add: eval_cycle)
  then have mem: "100 \<in> set (volume_commands (main_loop ?cs))" by simp
  from written_volume_in_bounds [of True 0 ?cs] mem run show ?thesis by blast
qed

text \<open>
  C8. With the volume read as \<open>cv\<close> and a loudness \<open>r\<close>: for
  \<open>TARGET_RMS_LOW \<le> r \<le> TARGET_RMS_HIGH\<close>, both ends included, the cycle prints the
  status and sleeps, and runs no volume command; for \<open>r < TARGET_RMS_LOW\<close> it calls
  \<open>set_mic_volume\<close> with \<open>cv + ADJUST_STEP\<close>; for \<open>r > TARGET_RMS_HIGH\<close> it calls
  \<open>set_mic_volume\<close> with \<open>cv - ADJUST_STEP\<close>.
\<close>

theorem band_decision:
  assumes "snd (get_current_mic_volume (amixer_get c)) = Some cv"
    and "calculate_rms (frame c) = Fin r"
  shows "(TARGET_RMS_LOW \<le> r \<and> r \<le> TARGET_RMS_HIGH \<longrightarrow>
            main_cycle c
              = fst (get_current_mic_volume (amixer_get c)) @ [Print_status (Fin r) cv, Sleep]
            \<and> volume_commands (main_cycle c) = [])
       \<and> (r < TARGET_RMS_LOW \<longrightarrow>
            main_cycle c
              = fst (get_current_mic_volume (amixer_get c)) @ [Print_status (Fin r) cv]
                @ set_mic_volume (amixer_sset_ok c) (cv + ADJUST_STEP) @ [Sleep])
       \<and> (TARGET_RMS_HIGH < r \<longrightarrow>
            main_cycle c
              = fst (get_current_mic_volume (amixer_get c)) @ [Print_status (Fin r) cv]
                @ set_mic_volume (amixer_sset_ok c) (cv - ADJUST_STEP) @ [Sleep])"
  using assms by (auto simp: main_cycle_unfold TARGET_RMS_LOW_def TARGET_RMS_HIGH_def)

theorem band_decision_witness:
  "main_cycle \<lparr>frame = replicate 512 8000, amixer_get = Completed ''[40%]'', amixer_sset_ok = True\<rparr>
     = [Print_status (Fin 8000) 40, Sleep]
   \<and> main_cycle \<lparr>frame = replicate 512 12000, amixer_get = Completed ''[40%]'', amixer_sset_ok = True\<rparr>
     = [Print_status (Fin 12000) 40, Sleep]
   \<and> main_cycle \<lparr>frame = replicate 512 5000, amixer_get = Completed ''[40%]'', amixer_sset_ok = True\<rparr>
     = [Print_status (Fin 5000) 40] @ set_mic_volume True (40 + ADJUST_STEP) @ [Sleep]
   \<and> main_cycle \<lparr>frame = replicate 512 20000, amixer_get = Completed ''[45%]'', amixer_sset_ok = True\<rparr>
     = [Print_status (Fin 20000) 45] @ set_mic_volume True (45 - ADJUST_STEP) @ [Sleep]"
proof -
  let ?c1 = "\<lparr>frame = replicate 512 8000, amixer_get = Completed ''[40%]'', amixer_sset_ok = True\<rparr>"
  let ?c2 = "\<lparr>frame = replicate 512 12000, amixer_get = Completed ''[40%]'', amixer_sset_ok = True\<rparr>"
  let ?c3 = "\<lparr>frame = replicate 512 5000, amixer_get = Completed ''[40%]'', amixer_sset_ok = True\<rparr>"
  let ?c4 = "\<lparr>frame = replicate 512 20000, amixer_get = Completed ''[45%]'', amixer_sset_ok = True\<rparr>"
  have g40: "get_current_mic_volume (Completed ''[40%]'') = ([], Some 40)"
    by (simp add: get_current_mic_volume_def match_percent_def isdigit_def py_int_def)
  have g45: "get_current_mic_volume (Completed ''[45%]'') = ([], Some 45)"
    by (simp add: get_current_mic_volume_def match_percent_def isdigit_def py_int_def)
  have v1: "snd (get_current_mic_volume (amixer_get ?c1)) = Some 40" using g40 by simp
  have v2: "snd (get_current_mic_volume (amixer_get ?c2)) = Some 40" using g40 by simp
  have v3: "snd (get_current_mic_volume (amixer_get ?c3)) = Some 40" using g40 by simp
  have v4: "snd (get_current_mic_volume (amixer_get ?c4)) = Some 45" using g45 by simp
  have r1: "calculate_rms (frame ?c1) = Fin 8000" by (simp add: rms_replicate)
  have r2: "calculate_rms (frame ?c2) = Fin 12000" by (simp add: rms_replicate)
  have r3: "calculate_rms (frame ?c3) = Fin 5000" by (simp add: rms_replicate)
  have r4: "calculate_rms (frame ?c4) = Fin 20000" by (simp add: rms_replicate)
  have b1: "TARGET_RMS_LOW \<le> 8000 \<and> (8000 :: real) \<le> TARGET_RMS_HIGH"
    by (simp add: TARGET_RMS_LOW_def TARGET_RMS_HIGH_def)
  have b2: "TARGET_RMS_LOW \<le> 12000 \<and> (12000 :: real) \<le> TARGET_RMS_HIGH"
    by (simp add: TARGET_RMS_LOW_def TARGET_RMS_HIGH_def)
  have b3: "(5000 :: real) < TARGET_RMS_LOW" by (simp add: TARGET_RMS_LOW_def)
  have b4: "TARGET_RMS_HIGH < (20000 :: real)" by (simp add: TARGET_RMS_HIGH_def)
  from band_decision [OF v1 r1] b1
  have "main_cycle ?c1 = [Print_status (Fin 8000) 40, Sleep]" using g40 by simp
  moreover from band_decision [OF v2 r2] b2
  have "main_cycle ?c2 = [Print_status (Fin 12000) 40, Sleep]" using g40 by simp
  moreover from band_decision [OF v3 r3] b3
  have "main_cycle ?c3 = [Print_status (Fin 5000) 40] @ set_mic_volume True (40 + ADJUST_STEP) @ [Sleep]"
    using g40 by simp
  moreover from band_decision [OF v4 r4] b4
  have "main_cycle ?c4 = [Print_status (Fin 20000) 45] @ set_mic_volume True (45 - ADJUST_STEP) @ [Sleep]"
    using g45 by simp
  ultimately show ?thesis by blast
qed

text \<open>
  C9. In a cycle where \<open>get_current_mic_volume\<close> returns \<^verbatim>\<open>None\<close> (the
  \<^verbatim>\<open>amixer get\<close> run raised, or its output has no percentage), the cycle prints
  "Could not read current mic volume.", sleeps, and runs no volume command; the loop then
  goes on with the next cycle, which reads the volume anew.
\<close>

theorem unreadable_volume_no_command:
  assumes "snd (get_current_mic_volume (amixer_get c)) = None"
  shows "main_cycle c = fst (get_current_mic_volume (amixer_get c)) @ [Print_could_not_read, Sleep]
       \<and> volume_commands (main_cycle c) = []
       \<and> main_loop (c # cs) = main_cycle c @ main_loop cs"
  using assms by (simp add: main_cycle_unfold)

theorem unreadable_volume_no_command_witness:
  "snd (get_current_mic_volume Raised) = None
   \<and> main_cycle \<lparr>frame = replicate 512 5000, amixer_get = Raised, amixer_sset_ok = True\<rparr>
       = [Print_error_reading, Print_could_not_read, Sleep]
   \<and> main_loop
       [\<lparr>frame = replicate 512 5000, amixer_get = Raised, amixer_sset_ok = True\<rparr>,
        \<lparr>frame = replicate 512 5000, amixer_get = Completed ''[40%]'', amixer_sset_ok = True\<rparr>]
       = [Print_error_reading, Print_could_not_read, Sleep,
          Print_status (Fin 5000) 40, Run_amixer_sset 45, Print_set 45, Sleep]"
proof -
  let ?c = "\<lparr>frame = replicate 512 5000, amixer_get = Raised, amixer_sset_ok = True\<rparr>"
  let ?d = "\<lparr>frame = replicate 512 5000, amixer_get = Completed ''[40%]'', amixer_sset_ok = True\<rparr>"
  have g: "get_current_mic_volume Raised = ([Print_error_reading], None)"
    by (simp add: get_current_mic_volume_def)
  then have h: "snd (get_current_mic_volume (amixer_get ?c)) = None" by simp
  have next_cycle: "main_loop [?d]
      = [Print_status (Fin 5000) 40, Run_amixer_sset 45, Print_set 45, Sleep]"
    by (simp add: eval_cycle)
  from unreadable_volume_no_command [OF h, of "[?d]"] g next_cycle show ?thesis
    by simp
qed

end
